theory Spec2Isabelle
  imports Complex_Main
begin

section \<open>Python exceptions and library functions\<close>

text \<open>
  The exceptions the modelled functions can raise. \<open>Exception\<close> carries the message of a
  plain \<^verbatim>\<open>raise Exception("...")\<close>; the other constructors are the built-in exception
  classes raised by the interpreter and by numpy.
\<close>

datatype error =
    Exception string
  | KeyError string
  | ValueError string
  | TypeError string
  | IndexError string
  | NameError string

text \<open>
  Functions of numpy and scipy that the modules call but do not define. They are
  parameters of the model: \<open>spacing\<close> is \<^verbatim>\<open>np.spacing\<close>, \<open>logit\<close> and \<open>expit\<close> are
  \<^verbatim>\<open>scipy.special.logit\<close> and \<^verbatim>\<open>scipy.special.expit\<close>, \<open>np_log\<close> and \<open>np_exp\<close> are
  \<^verbatim>\<open>np.log\<close> and \<^verbatim>\<open>np.exp\<close>. The global generator of \<^verbatim>\<open>np.random\<close> has a state of type
  \<open>'s\<close>: \<open>seed_state n\<close> is the state that \<^verbatim>\<open>np.random.seed(n)\<close> installs, and
  \<open>normal_draw\<close> and \<open>lognormal_draw\<close> take one sample with the given location and scale
  and return it with the advanced state. Array entries (float64) are modelled as reals,
  the values they denote. The transform pair tests the results of its own arithmetic, and
  so does the process noise that feeds it; there the four operations of float64, which
  round, are the parameters \<open>fadd\<close>, \<open>fsub\<close>, \<open>fmul\<close> and \<open>fdiv\<close>. Elsewhere no branch
  depends on how a result is rounded, and the model computes exactly.
\<close>

record 's nplib =
  fadd :: "real \<Rightarrow> real \<Rightarrow> real"
  fsub :: "real \<Rightarrow> real \<Rightarrow> real"
  fmul :: "real \<Rightarrow> real \<Rightarrow> real"
  fdiv :: "real \<Rightarrow> real \<Rightarrow> real"
  spacing :: "real \<Rightarrow> real"
  logit :: "real \<Rightarrow> real"
  expit :: "real \<Rightarrow> real"
  np_log :: "real \<Rightarrow> real"
  np_exp :: "real \<Rightarrow> real"
  seed_state :: "int \<Rightarrow> 's"
  normal_draw :: "real \<Rightarrow> real \<Rightarrow> 's \<Rightarrow> real \<times> 's"
  lognormal_draw :: "real \<Rightarrow> real \<Rightarrow> 's \<Rightarrow> real \<times> 's"

section \<open>Boolean-mask indexing of arrays\<close>

text \<open>\<^verbatim>\<open>x == v\<close> on an array: the elementwise mask.\<close>

definition eq_mask :: "'a list \<Rightarrow> 'a \<Rightarrow> bool list" where
  "eq_mask x v = map (\<lambda>e. e = v) x"

text \<open>\<^verbatim>\<open>m.any()\<close>.\<close>

definition any :: "bool list \<Rightarrow> bool" where
  "any m = (True \<in> set m)"

text \<open>\<^verbatim>\<open>x[m]\<close>: the entries of \<open>x\<close> where the mask holds, in order.\<close>

fun mask_get :: "bool list \<Rightarrow> 'a list \<Rightarrow> 'a list" where
  "mask_get (b # m) (e # x) = (if b then e # mask_get m x else mask_get m x)"
| "mask_get _ _ = []"

text \<open>
  \<^verbatim>\<open>x[m] = vals\<close>: the entries of \<open>x\<close> where the mask holds are overwritten, in order,
  by the entries of \<open>vals\<close>; the other entries stay. The result is the array the caller's
  name refers to after the assignment.
\<close>

fun mask_set :: "bool list \<Rightarrow> 'a list \<Rightarrow> 'a list \<Rightarrow> 'a list" where
  "mask_set (True # m) (e # x) (v # vals) = v # mask_set m x vals"
| "mask_set (False # m) (e # x) vals = e # mask_set m x vals"
| "mask_set _ x _ = x"

section \<open>The bounded transform pair (met\_tools.py)\<close>

text \<open>
  \<^verbatim>\<open>glogit(x, bPmin, bPmax)\<close>. The function assigns into its argument array, so the model
  returns the pair of the returned array \<open>xt\<close> and the argument array as the caller sees
  it after the call.
\<close>

definition glogit :: "'s nplib \<Rightarrow> real list \<Rightarrow> real \<Rightarrow> real \<Rightarrow> real list \<times> real list" where
  "glogit np x bPmin bPmax =
    (let x1 = (if any (eq_mask x bPmin)
               then mask_set (eq_mask x bPmin) x
                      (map2 (fadd np) (mask_get (eq_mask x bPmin) x)
                         (map (\<lambda>e. \<bar>fmul np (spacing np e) 100\<bar>)
                            (mask_get (eq_mask x bPmin) x)))
               else x);
         x2 = (if any (eq_mask x1 bPmax)
               then mask_set (eq_mask x1 bPmax) x1
                      (map2 (fsub np) (mask_get (eq_mask x1 bPmax) x1)
                         (map (\<lambda>e. \<bar>fmul np (spacing np e) 100\<bar>)
                            (mask_get (eq_mask x1 bPmax) x1)))
               else x1);
         xs = map (\<lambda>e. fdiv np (fsub np e bPmin) (fsub np bPmax bPmin)) x2;
         xt = map (logit np) xs
     in (xt, x2))"

text \<open>\<^verbatim>\<open>gexpit(xt, bPmin, bPmax)\<close>, with the same convention for the argument array.\<close>

definition gexpit :: "'s nplib \<Rightarrow> real list \<Rightarrow> real \<Rightarrow> real \<Rightarrow> real list \<times> real list" where
  "gexpit np xt bPmin bPmax =
    (let xt1 = (if any (eq_mask xt bPmin)
                then mask_set (eq_mask xt bPmin) xt
                       (map2 (fadd np) (mask_get (eq_mask xt bPmin) xt)
                          (map (\<lambda>e. \<bar>fmul np (spacing np e) 100\<bar>)
                             (mask_get (eq_mask xt bPmin) xt)))
                else xt);
         xt2 = (if any (eq_mask xt1 bPmax)
                then mask_set (eq_mask xt1 bPmax) xt1
                       (map2 (fsub np) (mask_get (eq_mask xt1 bPmax) xt1)
                          (map (\<lambda>e. \<bar>fmul np (spacing np e) 100\<bar>)
                             (mask_get (eq_mask xt1 bPmax) xt1)))
                else xt1);
         xs = map (expit np) xt2;
         x = map (\<lambda>e. fadd np (fmul np (fsub np bPmax bPmin) e) bPmin) xs
     in (x, xt2))"

text \<open>
  The value the first guard writes over an entry \<open>e\<close> on the lower bound and the value
  the second guard writes over an entry on the upper bound, as float64 computes them.
\<close>

definition nudge_up :: "'s nplib \<Rightarrow> real \<Rightarrow> real" where
  "nudge_up np e = fadd np e \<bar>fmul np (spacing np e) 100\<bar>"

definition nudge_down :: "'s nplib \<Rightarrow> real \<Rightarrow> real" where
  "nudge_down np e = fsub np e \<bar>fmul np (spacing np e) 100\<bar>"

text \<open>The array the caller holds after \<open>glogit\<close> or \<open>gexpit\<close>, entry by entry.\<close>

definition nudged :: "'s nplib \<Rightarrow> real \<Rightarrow> real \<Rightarrow> real \<Rightarrow> real" where
  "nudged np bPmin bPmax e =
    (let e1 = (if e = bPmin then nudge_up np e else e)
     in if e1 = bPmax then nudge_down np e1 else e1)"

section \<open>Configuration and constants\<close>

text \<open>
  The attributes of the modules \<^verbatim>\<open>config\<close> and \<^verbatim>\<open>constants\<close> that the two source files read.
  The modules themselves are not part of the sources; their values are parameters.
\<close>

record cfg =
  seed :: "int option"
  vars_to_perturbate :: "string list"
  perturbation_strategy :: "string list"
  load_prev_run :: bool
  implementation :: string
  add_dynamic_noise :: bool
  restart_run :: bool
  output_path :: string
  save_ensemble :: bool
  save_ensemble_path :: string
  real_time_restart :: bool
  real_time_restart_path :: string
  da_algorithm :: string
  redraw_prior :: bool

record cnt =
  upper_bounds :: "string \<rightharpoonup> real"
  lower_bounds :: "string \<rightharpoonup> real"
  mean_errors :: "string \<rightharpoonup> real"
  sd_errors :: "string \<rightharpoonup> real"
  dyn_noise :: "string \<rightharpoonup> real"

text \<open>\<^verbatim>\<open>d[k]\<close> on a dictionary raises KeyError for a missing key.\<close>

definition getitem :: "(string \<rightharpoonup> 'v) \<Rightarrow> string \<Rightarrow> error + 'v" where
  "getitem d k = (case d k of None \<Rightarrow> Inl (KeyError k) | Some v \<Rightarrow> Inr v)"

section \<open>Computations with a generator state that may raise\<close>

text \<open>
  A statement that uses the global generator maps the state to a result (a value or the
  exception raised) and the state it leaves. \<open>and_then\<close> sequences two statements: an
  exception in the first skips the second and keeps the state reached.
\<close>

definition and_then ::
  "(error + 'a) \<times> 's \<Rightarrow> ('a \<Rightarrow> 's \<Rightarrow> (error + 'b) \<times> 's) \<Rightarrow> (error + 'b) \<times> 's" where
  "and_then r f = (case r of (Inl e, s) \<Rightarrow> (Inl e, s) | (Inr v, s) \<Rightarrow> f v s)"

text \<open>The same for a step that does not touch the generator.\<close>

definition pure_then ::
  "error + 'a \<Rightarrow> 's \<Rightarrow> ('a \<Rightarrow> 's \<Rightarrow> (error + 'b) \<times> 's) \<Rightarrow> (error + 'b) \<times> 's" where
  "pure_then r s f = (case r of Inl e \<Rightarrow> (Inl e, s) | Inr v \<Rightarrow> f v s)"

section \<open>numpy.random and array helpers\<close>

text \<open>\<^verbatim>\<open>np.random.seed(n)\<close>: numpy accepts seeds from 0 to 2**32 - 1.\<close>

definition np_random_seed :: "'s nplib \<Rightarrow> int \<Rightarrow> 's \<Rightarrow> (error + unit) \<times> 's" where
  "np_random_seed np n s =
    (if 0 \<le> n \<and> n < 2 ^ 32 then (Inr (), seed_state np n)
     else (Inl (ValueError ''Seed must be between 0 and 2**32 - 1''), s))"

text \<open>
  The statement \<^verbatim>\<open>if (cfg.seed is not None): np.random.seed(cfg.seed)\<close>, which opens
  both generators and every iteration of the loop over windows.
\<close>

definition reset_seed :: "'s nplib \<Rightarrow> cfg \<Rightarrow> 's \<Rightarrow> (error + unit) \<times> 's" where
  "reset_seed np c s = (case seed c of None \<Rightarrow> (Inr (), s) | Some n \<Rightarrow> np_random_seed np n s)"

text \<open>\<open>k\<close> successive samples from the stream.\<close>

fun draws :: "('s \<Rightarrow> real \<times> 's) \<Rightarrow> nat \<Rightarrow> 's \<Rightarrow> real list \<times> 's" where
  "draws d 0 s = ([], s)"
| "draws d (Suc k) s =
    (case d s of (v, s1) \<Rightarrow> (case draws d k s1 of (vs, s2) \<Rightarrow> (v # vs, s2)))"

text \<open>
  \<^verbatim>\<open>np.random.normal(loc, scale, size)\<close> and \<^verbatim>\<open>np.random.lognormal(mean, sigma, size)\<close>:
  an array of \<open>sz\<close> samples; a negative scale raises ValueError.
\<close>

definition np_random_normal ::
  "'s nplib \<Rightarrow> real \<Rightarrow> real \<Rightarrow> nat \<Rightarrow> 's \<Rightarrow> (error + real list) \<times> 's" where
  "np_random_normal np loc scale sz s =
    (if scale < 0 then (Inl (ValueError ''scale < 0''), s)
     else (case draws (normal_draw np loc scale) sz s of (vs, s1) \<Rightarrow> (Inr vs, s1)))"

definition np_random_lognormal ::
  "'s nplib \<Rightarrow> real \<Rightarrow> real \<Rightarrow> nat \<Rightarrow> 's \<Rightarrow> (error + real list) \<times> 's" where
  "np_random_lognormal np mean sigma sz s =
    (if sigma < 0 then (Inl (ValueError ''sigma < 0''), s)
     else (case draws (lognormal_draw np mean sigma) sz s of (vs, s1) \<Rightarrow> (Inr vs, s1)))"

text \<open>
  \<^verbatim>\<open>np.repeat(a, n)\<close> with an integer \<open>n\<close>: every entry of \<open>a\<close> repeated \<open>n\<close> times, in
  order; a negative count raises ValueError.
\<close>

definition np_repeat :: "'a list \<Rightarrow> int \<Rightarrow> error + 'a list" where
  "np_repeat a n =
    (if n < 0 then Inl (ValueError ''negative dimensions are not allowed'')
     else Inr (concat (map (replicate (nat n)) a)))"

text \<open>\<^verbatim>\<open>np.repeat(a, counts)\<close> with one count per entry.\<close>

definition np_repeat_each :: "'a list \<Rightarrow> nat list \<Rightarrow> error + 'a list" where
  "np_repeat_each a counts =
    (if length a = length counts then Inr (concat (map2 replicate counts a))
     else Inl (ValueError ''operands could not be broadcast together''))"

text \<open>\<^verbatim>\<open>np.unique(a)\<close>: the distinct entries in ascending order.\<close>

definition np_unique :: "'a::linorder list \<Rightarrow> 'a list" where
  "np_unique a = sort (remdups a)"

text \<open>\<^verbatim>\<open>np.mean(a)\<close>.\<close>

definition np_mean :: "real list \<Rightarrow> real" where
  "np_mean a = sum_list a / real (length a)"

text \<open>\<^verbatim>\<open>np.sum(m)\<close> of a mask: the number of True entries.\<close>

definition np_sum_mask :: "bool list \<Rightarrow> nat" where
  "np_sum_mask m = length (filter (\<lambda>b. b) m)"

text \<open>\<^verbatim>\<open>a[m]\<close> where the mask comes from another array: the lengths must agree.\<close>

definition mask_index :: "bool list \<Rightarrow> 'a list \<Rightarrow> error + 'a list" where
  "mask_index m a =
    (if length m = length a then Inr (mask_get m a)
     else Inl (IndexError ''boolean index did not match indexed array''))"

text \<open>\<^verbatim>\<open>a[n]\<close> on an array with a non-negative index.\<close>

definition array_item :: "'a list \<Rightarrow> nat \<Rightarrow> error + 'a" where
  "array_item a n =
    (if n < length a then Inr (a ! n) else Inl (IndexError ''index is out of bounds''))"

text \<open>\<^verbatim>\<open>np.concatenate(arrays)\<close>: an empty list of arrays raises ValueError.\<close>

definition np_concatenate :: "'a list list \<Rightarrow> error + 'a list" where
  "np_concatenate arrays =
    (if arrays = [] then Inl (ValueError ''need at least one array to concatenate'')
     else Inr (concat arrays))"

section \<open>Drawing perturbation coefficients (met\_tools.py)\<close>

text \<open>
  The body shared by \<^verbatim>\<open>create_noise\<close> and by every iteration of the loop of
  \<^verbatim>\<open>create_noise_from_posterior\<close>: the chain of comparisons on the strategy name, after
  the seed has been reset. The source writes the chain out in both places, with the same
  text.
\<close>

definition draw_noise ::
  "'s nplib \<Rightarrow> cnt \<Rightarrow> string \<Rightarrow> int \<Rightarrow> real \<Rightarrow> real \<Rightarrow> string \<Rightarrow> 's
    \<Rightarrow> (error + real list) \<times> 's" where
  "draw_noise np k strategy n_steps mean std_dev var s =
    (if strategy = ''normal'' then
       and_then (np_random_normal np mean std_dev 1 s)
         (\<lambda>noise s1. (np_repeat noise n_steps, s1))
     else if strategy = ''lognormal'' then
       and_then (np_random_lognormal np mean std_dev 1 s)
         (\<lambda>noise s1. (np_repeat noise n_steps, s1))
     else if strategy \<in> set [''logitnormal_mult'', ''logitnormal_adi''] then
       pure_then (getitem (upper_bounds k) var) s (\<lambda>bPmax s.
       pure_then (getitem (lower_bounds k) var) s (\<lambda>bPmin s.
       and_then (np_random_normal np mean std_dev 1 s) (\<lambda>norm_noise s1.
       pure_then (np_repeat norm_noise n_steps) s1 (\<lambda>norm_noise s1.
         (Inr (fst (gexpit np norm_noise bPmin bPmax)), s1)))))
     else (Inl (Exception ''choose the shape of the perturbation parameters''), s))"

text \<open>\<^verbatim>\<open>create_noise(perturbation_strategy, n_steps, mean, std_dev, var)\<close>.\<close>

definition create_noise ::
  "'s nplib \<Rightarrow> cfg \<Rightarrow> cnt \<Rightarrow> string \<Rightarrow> int \<Rightarrow> real \<Rightarrow> real \<Rightarrow> string \<Rightarrow> 's
    \<Rightarrow> (error + real list) \<times> 's" where
  "create_noise np c k strategy n_steps mean std_dev var s =
    and_then (reset_seed np c s)
      (\<lambda>_ s0. draw_noise np k strategy n_steps mean std_dev var s0)"

text \<open>
  A configured seed is valid when numpy accepts it; \<open>seeded\<close> is the generator state
  after the seed statement.
\<close>

definition valid_seed :: "cfg \<Rightarrow> bool" where
  "valid_seed c = (case seed c of None \<Rightarrow> True | Some n \<Rightarrow> 0 \<le> n \<and> n < 2 ^ 32)"

definition seeded :: "'s nplib \<Rightarrow> cfg \<Rightarrow> 's \<Rightarrow> 's" where
  "seeded np c s = (case seed c of None \<Rightarrow> s | Some n \<Rightarrow> seed_state np n)"

section \<open>Regenerating the coefficients from stored posteriors (met\_tools.py)\<close>

text \<open>
  A pandas DataFrame: the number of rows, which is what \<^verbatim>\<open>len\<close> returns, and the columns
  by name. \<^verbatim>\<open>df[name]\<close> raises KeyError for a missing column.
\<close>

record dataframe =
  nrows :: nat
  columns :: "string \<rightharpoonup> real list"

definition df_getitem :: "dataframe \<Rightarrow> string \<Rightarrow> error + real list" where
  "df_getitem df name = getitem (columns df) name"

text \<open>
  Two variables of \<^verbatim>\<open>create_noise_from_posterior\<close> hold values of different Python types
  depending on the branch taken: \<^verbatim>\<open>post_mean_vals\<close> is the array returned by
  \<^verbatim>\<open>np.unique\<close> or the scalar returned by \<^verbatim>\<open>np.mean\<close>, and \<^verbatim>\<open>counts\<close> is an array of
  step counts or the plain integer \<^verbatim>\<open>len(posteriors)\<close>.
\<close>

datatype mean_vals = MeanScalar real | MeanArray "real list"

datatype step_counts = CountInt nat | CountArray "nat list"

text \<open>\<^verbatim>\<open>len(counts)\<close>: an integer has no length.\<close>

definition len_counts :: "step_counts \<Rightarrow> error + nat" where
  "len_counts counts =
    (case counts of
       CountInt n \<Rightarrow> Inl (TypeError ''object of type int has no len()'')
     | CountArray a \<Rightarrow> Inr (length a))"

text \<open>\<^verbatim>\<open>counts[0]\<close>: an integer is not subscriptable.\<close>

definition counts_item :: "step_counts \<Rightarrow> nat \<Rightarrow> error + nat" where
  "counts_item counts i =
    (case counts of
       CountInt n \<Rightarrow> Inl (TypeError ''int object is not subscriptable'')
     | CountArray a \<Rightarrow> array_item a i)"

text \<open>\<^verbatim>\<open>post_mean_vals.size\<close> and \<^verbatim>\<open>post_mean_vals[n]\<close>: a numpy scalar has size 1 and
  cannot be indexed.\<close>

definition mean_vals_size :: "mean_vals \<Rightarrow> nat" where
  "mean_vals_size v = (case v of MeanScalar m \<Rightarrow> 1 | MeanArray a \<Rightarrow> length a)"

definition mean_vals_item :: "mean_vals \<Rightarrow> nat \<Rightarrow> error + real" where
  "mean_vals_item v n =
    (case v of
       MeanScalar m \<Rightarrow> Inl (IndexError ''invalid index to scalar variable.'')
     | MeanArray a \<Rightarrow> array_item a n)"

text \<open>\<^verbatim>\<open>np.repeat(range(n_daws), counts)\<close>, where \<open>n_daws\<close> is \<^verbatim>\<open>len(counts)\<close>.\<close>

definition repeat_ids :: "nat \<Rightarrow> step_counts \<Rightarrow> error + nat list" where
  "repeat_ids n_daws counts =
    (case counts of
       CountInt n \<Rightarrow> np_repeat [0..<n_daws] (int n)
     | CountArray a \<Rightarrow> np_repeat_each [0..<n_daws] a)"

text \<open>
  The loop over \<^verbatim>\<open>unique_indices\<close>: for every window index, the root of the mean of the
  squared standard deviations at the positions that \<^verbatim>\<open>idsDAWS\<close> gives to that index.
\<close>

fun std_dev_loop :: "real list \<Rightarrow> nat list \<Rightarrow> nat list \<Rightarrow> error + real list" where
  "std_dev_loop post_std_dev idsDAWS [] = Inr []"
| "std_dev_loop post_std_dev idsDAWS (index # rest) =
    (let k = np_sum_mask (eq_mask idsDAWS index) in
     case mask_index (eq_mask idsDAWS index) post_std_dev of
       Inl e \<Rightarrow> Inl e
     | Inr sel \<Rightarrow>
         (case std_dev_loop post_std_dev idsDAWS rest of
            Inl e \<Rightarrow> Inl e
          | Inr r \<Rightarrow> Inr (sqrt (sum_list (map2 (*) sel sel) / real k) # r)))"

text \<open>
  The loop over the windows, \<^verbatim>\<open>for n in range(post_mean_vals.size)\<close>. Every iteration
  reads the mean and the combined standard deviation of window \<open>n\<close>, takes
  \<^verbatim>\<open>n_steps = counts[0]\<close>, resets the seed, draws and appends to \<^verbatim>\<open>complet_noise\<close>.
\<close>

fun daw_loop ::
  "'s nplib \<Rightarrow> cfg \<Rightarrow> cnt \<Rightarrow> string \<Rightarrow> string \<Rightarrow> mean_vals \<Rightarrow> real list \<Rightarrow> step_counts
    \<Rightarrow> nat list \<Rightarrow> real list list \<Rightarrow> 's \<Rightarrow> (error + real list list) \<times> 's" where
  "daw_loop np c k strategy var_tmp post_mean_vals post_post_std_dev counts [] complet_noise s
    = (Inr complet_noise, s)"
| "daw_loop np c k strategy var_tmp post_mean_vals post_post_std_dev counts (n # ns) complet_noise s
    = pure_then (mean_vals_item post_mean_vals n) s (\<lambda>mean s.
      pure_then (array_item post_post_std_dev n) s (\<lambda>std_dev s.
      pure_then (counts_item counts 0) s (\<lambda>n_steps s.
      and_then (reset_seed np c s) (\<lambda>_ s.
      and_then (draw_noise np k strategy (int n_steps) mean std_dev var_tmp s) (\<lambda>noise s.
        daw_loop np c k strategy var_tmp post_mean_vals post_post_std_dev counts ns
          (complet_noise @ [noise]) s)))))"

text \<open>\<^verbatim>\<open>create_noise_from_posterior(posteriors, perturbation_strategy, var_tmp)\<close>.\<close>

definition create_noise_from_posterior ::
  "'s nplib \<Rightarrow> cfg \<Rightarrow> cnt \<Rightarrow> dataframe \<Rightarrow> string \<Rightarrow> string \<Rightarrow> 's \<Rightarrow> (error + real list) \<times> 's" where
  "create_noise_from_posterior np c k posteriors strategy var_tmp s =
    and_then (reset_seed np c s) (\<lambda>_ s.
    pure_then (df_getitem posteriors (var_tmp @ ''_noise_mean'')) s (\<lambda>post_mean s.
    pure_then (df_getitem posteriors (var_tmp @ ''_noise_sd'')) s (\<lambda>post_std_dev s.
    let uniq = np_unique post_mean;
        post_mean_vals = (if nrows posteriors = length uniq
                          then MeanScalar (np_mean uniq) else MeanArray uniq);
        counts = (if nrows posteriors = length uniq
                  then CountInt (nrows posteriors)
                  else CountArray (map (\<lambda>value. np_sum_mask (eq_mask post_mean value)) uniq))
    in
    pure_then (len_counts counts) s (\<lambda>n_daws s.
    pure_then (repeat_ids n_daws counts) s (\<lambda>idsDAWS s.
    pure_then (std_dev_loop post_std_dev idsDAWS (np_unique idsDAWS)) s (\<lambda>post_post_std_dev s.
    and_then (daw_loop np c k strategy var_tmp post_mean_vals post_post_std_dev counts
                [0..<mean_vals_size post_mean_vals] [] s) (\<lambda>complet_noise s.
      (np_concatenate complet_noise, s))))))))"

section \<open>Perturbing the forcing (met\_tools.py)\<close>

text \<open>
  Arithmetic of two one-dimensional arrays with numpy's broadcasting: equal lengths
  combine entry by entry, an array of length one is stretched, any other pair of lengths
  raises ValueError.
\<close>

definition broadcast2 ::
  "(real \<Rightarrow> real \<Rightarrow> real) \<Rightarrow> real list \<Rightarrow> real list \<Rightarrow> error + real list" where
  "broadcast2 f a b =
    (if length a = length b then Inr (map2 f a b)
     else if length a = 1 then Inr (map (f (hd a)) b)
     else if length b = 1 then Inr (map (\<lambda>e. f e (hd b)) a)
     else Inl (ValueError ''operands could not be broadcast together''))"

text \<open>
  \<^verbatim>\<open>np.cumsum(a)\<close>, written with the running total: the first entry is kept and every
  later one is added to the total in float64.
\<close>

fun cumsum_from :: "(real \<Rightarrow> real \<Rightarrow> real) \<Rightarrow> real \<Rightarrow> real list \<Rightarrow> real list" where
  "cumsum_from add acc [] = []"
| "cumsum_from add acc (e # a) = add acc e # cumsum_from add (add acc e) a"

definition np_cumsum :: "'s nplib \<Rightarrow> real list \<Rightarrow> real list" where
  "np_cumsum np a = (case a of [] \<Rightarrow> [] | e # r \<Rightarrow> e # cumsum_from (fadd np) e r)"

text \<open>
  \<^verbatim>\<open>add_process_noise(noise_coef, var, strategy)\<close>. The call of \<open>glogit\<close> assigns into the
  array passed in; the caller rebinds its name to the returned array and holds no other
  reference to the old one, so only the returned array is modelled.
\<close>

definition add_process_noise ::
  "'s nplib \<Rightarrow> cfg \<Rightarrow> cnt \<Rightarrow> real list \<Rightarrow> string \<Rightarrow> string \<Rightarrow> 's \<Rightarrow> (error + real list) \<times> 's" where
  "add_process_noise np c k noise_coef var strategy s =
    (if implementation c = ''Spatial_propagation'' then (Inr noise_coef, s)
     else if add_dynamic_noise c then
       pure_then (getitem (dyn_noise k) var) s (\<lambda>tmp_proc_noise s.
       and_then (np_random_normal np 0 tmp_proc_noise (length noise_coef) s) (\<lambda>add_vals s.
         if strategy = ''normal'' then
           (broadcast2 (fadd np) noise_coef (np_cumsum np add_vals), s)
         else if strategy = ''lognormal'' then
           pure_then (broadcast2 (fadd np) (map (np_log np) noise_coef)
                        (np_cumsum np add_vals)) s
             (\<lambda>noise_coef s. (Inr (map (np_exp np) noise_coef), s))
         else if strategy \<in> set [''logitnormal_mult'', ''logitnormal_adi''] then
           pure_then (getitem (lower_bounds k) var) s (\<lambda>bPmin s.
           pure_then (getitem (upper_bounds k) var) s (\<lambda>bPmax s.
           pure_then (broadcast2 (fadd np) (fst (glogit np noise_coef bPmin bPmax))
                        (np_cumsum np add_vals)) s (\<lambda>noise_coef s.
             (Inr (fst (gexpit np noise_coef bPmin bPmax)), s))))
         else (Inl (Exception ''Bad perturbation strategy''), s)))
     else (Inr noise_coef, s))"

text \<open>\<^verbatim>\<open>df[name] = values\<close>: the values must have one entry per row.\<close>

definition df_setitem :: "dataframe \<Rightarrow> string \<Rightarrow> real list \<Rightarrow> error + dataframe" where
  "df_setitem df name vals =
    (if length vals = nrows df then Inr (df\<lparr>columns := (columns df)(name \<mapsto> vals)\<rparr>)
     else Inl (ValueError ''Length of values does not match length of index''))"

text \<open>
  The first coefficients of one variable, before process noise: the chain
  \<^verbatim>\<open>if readGSC / elif update / else\<close> of the loop body. \<open>read_parameter\<close> stands for
  \<^verbatim>\<open>spM.read_parameter(GSC_filename, lat_idx, lon_idx, var_tmp, member)\<close> as a function of
  the variable; the module that defines it is not part of the sources. \<open>posteriors\<close> and
  \<open>noise\<close> default to \<^verbatim>\<open>None\<close>.
\<close>

definition first_coefficients ::
  "'s nplib \<Rightarrow> cfg \<Rightarrow> cnt \<Rightarrow> (string \<Rightarrow> error + real list) \<Rightarrow> dataframe option
    \<Rightarrow> real list list option \<Rightarrow> bool \<Rightarrow> bool \<Rightarrow> int \<Rightarrow> nat \<Rightarrow> string \<Rightarrow> string \<Rightarrow> 's
    \<Rightarrow> (error + real list) \<times> 's" where
  "first_coefficients np c k read_parameter posteriors noise update readGSC n_steps idv
     var_tmp strategy_tmp s =
    (if readGSC then
       pure_then (read_parameter var_tmp) s (\<lambda>parameter s. (np_repeat parameter n_steps, s))
     else if update then
       (case noise of
          None \<Rightarrow> (Inl (TypeError ''NoneType object is not subscriptable''), s)
        | Some ns \<Rightarrow>
            pure_then (array_item ns idv) s (\<lambda>noise_coef s. (np_repeat noise_coef n_steps, s)))
     else if load_prev_run c then
       (case posteriors of
          None \<Rightarrow>
            and_then (reset_seed np c s)
              (\<lambda>_ s. (Inl (TypeError ''NoneType object is not subscriptable''), s))
        | Some p \<Rightarrow> create_noise_from_posterior np c k p strategy_tmp var_tmp s)
     else
       pure_then (getitem (mean_errors k) var_tmp) s (\<lambda>mean s.
       pure_then (getitem (sd_errors k) var_tmp) s (\<lambda>std_dev s.
         create_noise np c k strategy_tmp n_steps mean std_dev var_tmp s)))"

text \<open>
  The loop \<^verbatim>\<open>for idv in range(len(vars_to_perturbate))\<close>, carrying the copy of the forcing,
  the dictionary of stored coefficients and the generator state.
\<close>

fun perturb_loop ::
  "'s nplib \<Rightarrow> cfg \<Rightarrow> cnt \<Rightarrow> (string \<Rightarrow> error + real list) \<Rightarrow> dataframe option
    \<Rightarrow> real list list option \<Rightarrow> bool \<Rightarrow> bool \<Rightarrow> int \<Rightarrow> nat list
    \<Rightarrow> dataframe \<Rightarrow> (string \<rightharpoonup> real list option) \<Rightarrow> 's
    \<Rightarrow> (error + dataframe \<times> (string \<rightharpoonup> real list option)) \<times> 's" where
  "perturb_loop np c k read_parameter posteriors noise update readGSC n_steps []
     forcing_copy noise_storage s = (Inr (forcing_copy, noise_storage), s)"
| "perturb_loop np c k read_parameter posteriors noise update readGSC n_steps (idv # rest)
     forcing_copy noise_storage s =
    pure_then (array_item (vars_to_perturbate c) idv) s (\<lambda>var_tmp s.
    pure_then (array_item (perturbation_strategy c) idv) s (\<lambda>strategy_tmp s.
    and_then (first_coefficients np c k read_parameter posteriors noise update readGSC
                n_steps idv var_tmp strategy_tmp s) (\<lambda>noise_coef s.
    and_then (add_process_noise np c k noise_coef var_tmp strategy_tmp s) (\<lambda>noise_coef s.
    pure_then (df_getitem forcing_copy var_tmp) s (\<lambda>vals s.
    pure_then (if strategy_tmp \<in> set [''lognormal'', ''logitnormal_mult'']
               then broadcast2 (*) vals noise_coef
               else broadcast2 (+) vals noise_coef) s (\<lambda>perturbed s.
    pure_then (df_setitem forcing_copy var_tmp perturbed) s (\<lambda>forcing_copy s.
      perturb_loop np c k read_parameter posteriors noise update readGSC n_steps rest
        forcing_copy (noise_storage(var_tmp \<mapsto> Some noise_coef)) s)))))))"

text \<open>
  \<^verbatim>\<open>perturb_parameters(main_forcing, lat_idx, lon_idx, posteriors, member, noise, update,
  readGSC, GSC_filename)\<close>. The function works on a copy of the forcing, so the caller's
  table is not changed; the coordinates, the member and the file name only reach
  \<open>read_parameter\<close>. The two length checks come before the loop.
\<close>

definition perturb_parameters ::
  "'s nplib \<Rightarrow> cfg \<Rightarrow> cnt \<Rightarrow> (string \<Rightarrow> error + real list) \<Rightarrow> dataframe \<Rightarrow> dataframe option
    \<Rightarrow> real list list option \<Rightarrow> bool \<Rightarrow> bool \<Rightarrow> 's
    \<Rightarrow> (error + dataframe \<times> (string \<rightharpoonup> real list option)) \<times> 's" where
  "perturb_parameters np c k read_parameter main_forcing posteriors noise update readGSC s =
    (let forcing_copy = main_forcing;
         n_steps = int (nrows forcing_copy);
         noise_storage = (\<lambda>var. if var \<in> set (vars_to_perturbate c) then Some None else None)
     in
     if length (vars_to_perturbate c) \<noteq> length (perturbation_strategy c) then
       (Inl (Exception ''Length of vars_to_perturbate different to perturbation_strategy''), s)
     else
       pure_then (if update
                  then (case noise of
                          None \<Rightarrow> Inl (TypeError ''object of type NoneType has no len()'')
                        | Some ns \<Rightarrow>
                            if length (vars_to_perturbate c) \<noteq> length ns
                            then Inl (Exception ''Something wrong with kalman noise'')
                            else Inr ())
                  else Inr ()) s (\<lambda>_ s.
       perturb_loop np c k read_parameter posteriors noise update readGSC n_steps
         [0..<length (vars_to_perturbate c)] forcing_copy noise_storage s))"

section \<open>Assimilation over one cell (cell\_assim.py)\<close>

text \<open>\<^verbatim>\<open>str(i)\<close> of an integer: the decimal digits, with a minus sign when negative.\<close>

function str_nat :: "nat \<Rightarrow> string" where
  "str_nat n =
    (if n < 10 then [''0123456789'' ! n]
     else str_nat (n div 10) @ [''0123456789'' ! (n mod 10)])"
  by pat_completeness auto
termination
  by (relation "measure (\<lambda>n. n)") auto

declare str_nat.simps [simp del]

definition py_str :: "int \<Rightarrow> string" where
  "py_str i = (if i < 0 then CHR ''-'' # str_nat (nat (- i)) else str_nat (nat i))"

text \<open>\<^verbatim>\<open>os.path.join(a, b)\<close> on POSIX paths.\<close>

definition os_path_join :: "string \<Rightarrow> string \<Rightarrow> string" where
  "os_path_join a b =
    (if b \<noteq> [] \<and> hd b = CHR ''/'' then b
     else if a = [] \<or> last a = CHR ''/'' then a @ b
     else a @ ''/'' @ b)"

text \<open>
  The function talks to collaborators that are not part of the sources: the
  observation provider and the persistence functions of \<^verbatim>\<open>internal_fns\<close>, the model
  adapter \<^verbatim>\<open>model\<close>, the filters, the ensemble class and the downcasting library. A call
  on one of them is recorded as an event; the data they exchange is not modelled.
\<close>

datatype sim_kind = Prior | Updated | Mcmc

datatype call =
    Get_dates_obs
  | Obs_array int int
  | Forcing_table int int
  | Forcing_check
  | Print_na int int
  | Simulation_steps
  | Run_model_openloop int int string
  | Init_result bool
  | Io_read string
  | New_ensemble int int
  | Create nat
  | Store_sim sim_kind nat
  | Implement_assimilation nat
  | StoreDA nat
  | Posterior_shape
  | Resample
  | Season_rejuvenation
  | StoreOL nat
  | Downcast
  | Downcast_output
  | Io_write string

text \<open>
  The state outside the function: the paths that exist in the file system and the calls
  made on the collaborators so far, oldest first.
\<close>

record world =
  files :: "string set"
  calls :: "call list"

text \<open>
  What the collaborators answer for the cell, as far as the control flow reads it:
  whether \<^verbatim>\<open>obs_array\<close> returned the string that marks a masked cell, whether
  \<^verbatim>\<open>forcing_check\<close> found missing values, whether all observations are NaN, and the
  length of \<^verbatim>\<open>time_dict["Assimilaiton_steps"]\<close>.
\<close>

record collab =
  masked :: bool
  forcing_na :: bool
  all_nan :: bool
  assimilation_steps :: nat

definition do_call :: "call \<Rightarrow> world \<Rightarrow> world" where
  "do_call e w = w\<lparr>calls := calls w @ [e]\<rparr>"

text \<open>\<^verbatim>\<open>ifn.io_write(path, obj)\<close>: the call, after which the path exists.\<close>

definition io_write :: "string \<Rightarrow> world \<Rightarrow> world" where
  "io_write path w = (do_call (Io_write path) w)\<lparr>files := insert path (files w)\<rparr>"

definition os_path_exists :: "world \<Rightarrow> string \<Rightarrow> bool" where
  "os_path_exists w path = (path \<in> files w)"

text \<open>The three file names built at the head of the function.\<close>

definition name_ensemble :: "cfg \<Rightarrow> int \<Rightarrow> int \<Rightarrow> string" where
  "name_ensemble c lat_idx lon_idx =
    os_path_join (save_ensemble_path c)
      (''ensbl_'' @ py_str lat_idx @ ''_'' @ py_str lon_idx @ ''.pkl.blp'')"

definition name_restart :: "cfg \<Rightarrow> int \<Rightarrow> int \<Rightarrow> string" where
  "name_restart c lat_idx lon_idx =
    os_path_join (real_time_restart_path c)
      (''init_'' @ py_str lat_idx @ ''_'' @ py_str lon_idx @ ''.pkl.blp'')"

definition filename :: "cfg \<Rightarrow> int \<Rightarrow> int \<Rightarrow> string" where
  "filename c lat_idx lon_idx =
    os_path_join (output_path c)
      (if load_prev_run c
       then ''Reconstructed_cell_'' @ py_str lat_idx @ ''_'' @ py_str lon_idx @ ''.pkl.blp''
       else ''cell_'' @ py_str lat_idx @ ''_'' @ py_str lon_idx @ ''.pkl.blp'')"

text \<open>The result containers: six calls of \<^verbatim>\<open>model.init_result\<close>, the first with
  \<^verbatim>\<open>DA=True\<close>, and two more for the MCMC algorithms.\<close>

definition init_results :: "cfg \<Rightarrow> world \<Rightarrow> world" where
  "init_results c w =
    (let w = do_call (Init_result True) w;
         w = do_call (Init_result False) w;
         w = do_call (Init_result False) w;
         w = do_call (Init_result False) w;
         w = do_call (Init_result False) w;
         w = do_call (Init_result False) w
     in if da_algorithm c \<in> set [''IES-MCMC'', ''IES-MCMC_AI'']
        then do_call (Init_result False) (do_call (Init_result False) w)
        else w)"

text \<open>The ensemble: read from the restart file when there is one, new otherwise.\<close>

definition init_ensemble :: "cfg \<Rightarrow> int \<Rightarrow> int \<Rightarrow> world \<Rightarrow> world" where
  "init_ensemble c lat_idx lon_idx w =
    (if real_time_restart c \<and> \<not> load_prev_run c then
       (let w1 = do_call (Io_read (name_restart c lat_idx lon_idx)) w
        in if os_path_exists w (name_restart c lat_idx lon_idx) then w1
           else do_call (New_ensemble lat_idx lon_idx) w1)
     else do_call (New_ensemble lat_idx lon_idx) w)"

text \<open>
  The loop over the assimilation steps. The result says whether the function returned
  from inside the loop, which it does in the first iteration of a reconstruction run.
\<close>

fun assimilation_loop :: "cfg \<Rightarrow> int \<Rightarrow> int \<Rightarrow> nat list \<Rightarrow> world \<Rightarrow> bool \<times> world" where
  "assimilation_loop c lat_idx lon_idx [] w = (False, w)"
| "assimilation_loop c lat_idx lon_idx (step # rest) w =
    (let w = do_call (Create step) w;
         w = do_call (Store_sim Prior step) w
     in if load_prev_run c then
          (True, io_write (filename c lat_idx lon_idx) (do_call Downcast_output w))
        else
          (let w = do_call (Implement_assimilation step) w;
               w = do_call (StoreDA step) w;
               w = do_call (Store_sim Updated step) w;
               w = (if da_algorithm c \<in> set [''IES-MCMC'', ''IES-MCMC_AI'']
                    then do_call (Store_sim Mcmc step) w else w);
               w = (if redraw_prior c then do_call Posterior_shape w else w);
               w = (if da_algorithm c \<in> set [''PF'', ''PBS'']
                    then do_call Resample w else w);
               w = (if da_algorithm c \<in> set [''PBS'', ''ProPBS'', ''AdaPBS'', ''ES'', ''IES'',
                                              ''PIES'', ''IES-MCMC'']
                    then do_call Season_rejuvenation w else w)
           in assimilation_loop c lat_idx lon_idx rest w))"

text \<open>The statements after the loop: downcasting and writing the results.\<close>

definition write_results :: "cfg \<Rightarrow> int \<Rightarrow> int \<Rightarrow> world \<Rightarrow> world" where
  "write_results c lat_idx lon_idx w =
    (let w = do_call Downcast w;
         w = do_call Downcast w;
         w = do_call Downcast w;
         w = do_call Downcast w;
         w = do_call Downcast w;
         w = do_call Downcast w;
         w = (if da_algorithm c \<in> set [''IES-MCMC'', ''IES-MCMC_AI'']
              then do_call Downcast (do_call Downcast w) else w);
         w = io_write (filename c lat_idx lon_idx) (do_call Downcast_output w);
         w = (if save_ensemble c then io_write (name_ensemble c lat_idx lon_idx) w else w)
     in if real_time_restart c then io_write (name_restart c lat_idx lon_idx) w else w)"

text \<open>
  \<^verbatim>\<open>cell_assimilation(lat_idx, lon_idx)\<close>. The function always returns \<^verbatim>\<open>None\<close>; the result
  is the exception raised, if any, and the world after the call. Exceptions raised inside
  the collaborators are not modelled. After a loop of no iteration the call of
  \<^verbatim>\<open>model.storeOL\<close> reads the unbound loop variables.
\<close>

definition cell_assimilation ::
  "collab \<Rightarrow> cfg \<Rightarrow> int \<Rightarrow> int \<Rightarrow> world \<Rightarrow> error option \<times> world" where
  "cell_assimilation env c lat_idx lon_idx w =
    (if restart_run c \<and> os_path_exists w (filename c lat_idx lon_idx) then (None, w)
     else
       (let w = do_call Get_dates_obs w;
            w = do_call (Obs_array lat_idx lon_idx) w
        in if masked env then (None, w)
           else
             (let w = do_call (Forcing_table lat_idx lon_idx) w;
                  w = do_call Forcing_check w
              in if forcing_na env then (None, do_call (Print_na lat_idx lon_idx) w)
                 else
                   (let w = do_call Simulation_steps w
                    in if (all_nan env \<or> da_algorithm c = ''deterministic_OL'')
                          \<and> \<not> load_prev_run c
                       then (None,
                             do_call (Run_model_openloop lat_idx lon_idx
                                        (filename c lat_idx lon_idx)) w)
                       else
                         (let w = init_results c w;
                              w = init_ensemble c lat_idx lon_idx w;
                              steps = [0..<assimilation_steps env - 1]
                          in case assimilation_loop c lat_idx lon_idx steps w of
                               (True, w) \<Rightarrow> (None, w)
                             | (False, w) \<Rightarrow>
                                 if steps = []
                                 then (Some (NameError ''observations_sbst''), w)
                                 else (None,
                                       write_results c lat_idx lon_idx
                                         (do_call (StoreOL (last steps)) w)))))))"

section \<open>A concrete library and configuration\<close>

text \<open>
  An instance of the library parameters on which the functions can be evaluated: the
  generator state is a counter, the seed statement sets the counter to the seed, and a
  draw returns a value computed from the counter and advances it. The spacing is that of
  float64 in the interval from 1 to 2, and the four operations are the exact ones, which
  is what float64 computes on the multiples of 2^-52 between 1 and 2 and on their
  differences, the values on which the transform pair is evaluated below.
\<close>

definition np_demo :: "nat nplib" where
  "np_demo =
    \<lparr>fadd = (+),
     fsub = (-),
     fmul = (*),
     fdiv = (/),
     spacing = (\<lambda>e. 1 / 2 ^ 52),
     logit = (\<lambda>p. ln (p / (1 - p))),
     expit = (\<lambda>v. 1 / (1 + exp (- v))),
     np_log = ln,
     np_exp = exp,
     seed_state = nat,
     normal_draw = (\<lambda>loc scale s. (loc + scale * real s, Suc s)),
     lognormal_draw = (\<lambda>mean sigma s. (exp (mean + sigma * real s), Suc s))\<rparr>"

definition cfg_demo :: cfg where
  "cfg_demo =
    \<lparr>seed = Some 42,
     vars_to_perturbate = [''SWIN'', ''LWIN'', ''Prec''],
     perturbation_strategy = [''normal'', ''lognormal''],
     load_prev_run = False,
     implementation = ''point_scale'',
     add_dynamic_noise = False,
     restart_run = True,
     output_path = ''./DATA/RESULTS'',
     save_ensemble = False,
     save_ensemble_path = ''./DATA/ENSEMBLES'',
     real_time_restart = False,
     real_time_restart_path = ''./DATA/RESTART'',
     da_algorithm = ''PBS'',
     redraw_prior = False\<rparr>"

definition cnt_demo :: cnt where
  "cnt_demo =
    \<lparr>upper_bounds = [''SWIN'' \<mapsto> 2],
     lower_bounds = [''SWIN'' \<mapsto> 0],
     mean_errors = [''SWIN'' \<mapsto> 0],
     sd_errors = [''SWIN'' \<mapsto> 1],
     dyn_noise = [''SWIN'' \<mapsto> 1 / 100]\<rparr>"

text \<open>
  Two stored posterior series for the variable SWIN: one with a different mean at every
  step, and one with two windows, of two and of three steps.
\<close>

definition post_dynamic :: dataframe where
  "post_dynamic =
    \<lparr>nrows = 3,
     columns = [''SWIN_noise_mean'' \<mapsto> [1 / 10, 3 / 10, 2 / 10],
                ''SWIN_noise_sd'' \<mapsto> [1, 1, 1]]\<rparr>"

definition post_windows :: dataframe where
  "post_windows =
    \<lparr>nrows = 5,
     columns = [''SWIN_noise_mean'' \<mapsto> [1, 1, 2, 2, 2],
                ''SWIN_noise_sd'' \<mapsto> [3, 3, 4, 4, 4]]\<rparr>"

text \<open>A forcing table of four steps.\<close>

definition forcing_demo :: dataframe where
  "forcing_demo =
    \<lparr>nrows = 4,
     columns = [''SWIN'' \<mapsto> [0, 100, 250, 50],
                ''LWIN'' \<mapsto> [300, 310, 305, 295],
                ''Prec'' \<mapsto> [0, 0, 1 / 1000, 0]]\<rparr>"

text \<open>A world in which the output file of the cell (3, 7) exists, and one without files.\<close>

definition world_done :: world where
  "world_done = \<lparr>files = {''./DATA/RESULTS/cell_3_7.pkl.blp''}, calls = []\<rparr>"

definition world_fresh :: world where
  "world_fresh = \<lparr>files = {}, calls = []\<rparr>"

definition collab_masked :: collab where
  "collab_masked = \<lparr>masked = True, forcing_na = False, all_nan = False, assimilation_steps = 3\<rparr>"

text \<open>A cell whose observations are all NaN.\<close>

definition collab_all_nan :: collab where
  "collab_all_nan = \<lparr>masked = False, forcing_na = False, all_nan = True, assimilation_steps = 3\<rparr>"

section \<open>Facts about mask indexing\<close>

lemma mask_get_eq_mask: "mask_get (map P x) x = filter P x"
  by (induction x) simp_all

lemma mask_set_map:
  "mask_set (map P x) x (map f (filter P x)) = map (\<lambda>e. if P e then f e else e) x"
  by (induction x) simp_all

lemma map2_same: "map2 f (map g ys) (map h ys) = map (\<lambda>e. f (g e) (h e)) ys"
  by (induction ys) simp_all

lemma nudge_assign:
  "mask_set (eq_mask x v) x
     (map2 f (mask_get (eq_mask x v) x) (map g (mask_get (eq_mask x v) x)))
   = map (\<lambda>e. if e = v then f e (g e) else e) x"
proof -
  have "map2 f (filter (\<lambda>e. e = v) x) (map g (filter (\<lambda>e. e = v) x))
        = map (\<lambda>e. f e (g e)) (filter (\<lambda>e. e = v) x)"
    using map2_same [where f = f and g = "\<lambda>e. e" and h = g and ys = "filter (\<lambda>e. e = v) x"]
    by simp
  then show ?thesis
    unfolding eq_mask_def mask_get_eq_mask
    using mask_set_map [of "\<lambda>e. e = v" x "\<lambda>e. f e (g e)"] by simp
qed

lemma nudge_step:
  "(if any (eq_mask x v)
    then mask_set (eq_mask x v) x
           (map2 f (mask_get (eq_mask x v) x) (map g (mask_get (eq_mask x v) x)))
    else x)
   = map (\<lambda>e. if e = v then f e (g e) else e) x"
proof (cases "any (eq_mask x v)")
  case True
  then show ?thesis by (simp only: nudge_assign if_True)
next
  case False
  then have "\<forall>e\<in>set x. e \<noteq> v"
    by (auto simp: any_def eq_mask_def)
  then have "map (\<lambda>e. if e = v then f e (g e) else e) x = x"
    by (induction x) simp_all
  with False show ?thesis by simp
qed

lemma nudged_map:
  "map (\<lambda>e. if e = bPmax then fsub np e \<bar>fmul np (spacing np e) 100\<bar> else e)
     (map (\<lambda>e. if e = bPmin then fadd np e \<bar>fmul np (spacing np e) 100\<bar> else e) x)
   = map (nudged np bPmin bPmax) x"
  by (simp add: nudged_def nudge_up_def nudge_down_def Let_def)

lemma glogit_nudged:
  "glogit np x bPmin bPmax
   = (map (logit np)
        (map (\<lambda>e. fdiv np (fsub np e bPmin) (fsub np bPmax bPmin))
           (map (nudged np bPmin bPmax) x)),
      map (nudged np bPmin bPmax) x)"
  by (simp only: glogit_def Let_def nudge_step nudged_map)

lemma gexpit_nudged:
  "gexpit np xt bPmin bPmax
   = (map (\<lambda>e. fadd np (fmul np (fsub np bPmax bPmin) e) bPmin)
        (map (expit np) (map (nudged np bPmin bPmax) xt)),
      map (nudged np bPmin bPmax) xt)"
  by (simp only: gexpit_def Let_def nudge_step nudged_map)

lemma length_fst_gexpit: "length (fst (gexpit np xt bPmin bPmax)) = length xt"
  by (simp add: gexpit_nudged)

text \<open>
  Entries that lie on neither bound pass the two guards untouched: they are scaled and
  mapped as they are.
\<close>

lemma nudged_off_bounds: "e \<noteq> bPmin \<Longrightarrow> e \<noteq> bPmax \<Longrightarrow> nudged np bPmin bPmax e = e"
  by (simp add: nudged_def)

lemma glogit_off_bounds:
  assumes "\<forall>e\<in>set x. e \<noteq> bPmin \<and> e \<noteq> bPmax"
  shows "glogit np x bPmin bPmax
         = (map (\<lambda>e. logit np (fdiv np (fsub np e bPmin) (fsub np bPmax bPmin))) x, x)"
proof -
  from assms have "map (nudged np bPmin bPmax) x = x"
    by (simp add: map_idI nudged_off_bounds)
  then show ?thesis
    by (simp add: glogit_nudged o_def)
qed

lemma gexpit_off_bounds:
  assumes "\<forall>e\<in>set xt. e \<noteq> bPmin \<and> e \<noteq> bPmax"
  shows "gexpit np xt bPmin bPmax
         = (map (\<lambda>e. fadd np (fmul np (fsub np bPmax bPmin) (expit np e)) bPmin) xt, xt)"
proof -
  from assms have "map (nudged np bPmin bPmax) xt = xt"
    by (simp add: map_idI nudged_off_bounds)
  then show ?thesis
    by (simp add: gexpit_nudged o_def)
qed

section \<open>Facts about the generator helpers\<close>

lemma reset_seed_valid: "valid_seed c \<Longrightarrow> reset_seed np c s = (Inr (), seeded np c s)"
  by (cases "seed c") (simp_all add: valid_seed_def reset_seed_def seeded_def np_random_seed_def)

lemma draws_one: "draws d (Suc 0) s = ([fst (d s)], snd (d s))"
  by (simp add: split_beta)

lemma np_repeat_single: "0 \<le> n \<Longrightarrow> np_repeat [v] n = Inr (replicate (nat n) v)"
  by (simp add: np_repeat_def)

lemma np_random_normal_one:
  "0 \<le> scale \<Longrightarrow>
   np_random_normal np loc scale (Suc 0) s
   = (Inr [fst (normal_draw np loc scale s)], snd (normal_draw np loc scale s))"
  by (simp add: np_random_normal_def split_beta)

lemma np_random_lognormal_one:
  "0 \<le> sigma \<Longrightarrow>
   np_random_lognormal np mean sigma (Suc 0) s
   = (Inr [fst (lognormal_draw np mean sigma s)], snd (lognormal_draw np mean sigma s))"
  by (simp add: np_random_lognormal_def split_beta)

lemma draw_noise_normal:
  "0 \<le> n_steps \<Longrightarrow> 0 \<le> std_dev \<Longrightarrow>
   draw_noise np k ''normal'' n_steps mean std_dev var s
   = (Inr (replicate (nat n_steps) (fst (normal_draw np mean std_dev s))),
      snd (normal_draw np mean std_dev s))"
  by (simp add: draw_noise_def and_then_def np_random_normal_one np_repeat_single)

lemma draw_noise_lognormal:
  "0 \<le> n_steps \<Longrightarrow> 0 \<le> std_dev \<Longrightarrow>
   draw_noise np k ''lognormal'' n_steps mean std_dev var s
   = (Inr (replicate (nat n_steps) (fst (lognormal_draw np mean std_dev s))),
      snd (lognormal_draw np mean std_dev s))"
  by (simp add: draw_noise_def and_then_def np_random_lognormal_one np_repeat_single)

lemma draw_noise_logitnormal:
  assumes "strategy \<in> set [''logitnormal_mult'', ''logitnormal_adi'']"
    and "0 \<le> n_steps" and "0 \<le> std_dev"
    and "upper_bounds k var = Some bPmax" and "lower_bounds k var = Some bPmin"
  shows "draw_noise np k strategy n_steps mean std_dev var s
   = (Inr (fst (gexpit np (replicate (nat n_steps) (fst (normal_draw np mean std_dev s)))
                  bPmin bPmax)),
      snd (normal_draw np mean std_dev s))"
proof -
  from assms(1) have ne: "strategy \<noteq> ''normal''" "strategy \<noteq> ''lognormal''"
    by auto
  show ?thesis
    using assms
    by (simp add: draw_noise_def ne and_then_def pure_then_def getitem_def
        np_random_normal_one np_repeat_single)
qed

lemma draw_noise_unknown:
  assumes "strategy \<notin> set [''normal'', ''lognormal'', ''logitnormal_mult'', ''logitnormal_adi'']"
  shows "draw_noise np k strategy n_steps mean std_dev var s
   = (Inl (Exception ''choose the shape of the perturbation parameters''), s)"
  using assms by (simp add: draw_noise_def)

lemma create_noise_seeded:
  "valid_seed c \<Longrightarrow>
   create_noise np c k strategy n_steps mean std_dev var s
   = draw_noise np k strategy n_steps mean std_dev var (seeded np c s)"
  by (simp add: create_noise_def reset_seed_valid and_then_def)

section \<open>Facts about the posterior series\<close>

lemma np_unique_distinct_length: "distinct a \<Longrightarrow> length (np_unique a) = length a"
  by (simp add: np_unique_def)

lemma sqrt_squares: "sqrt 9 = 3" "sqrt 16 = 4"
  using real_sqrt_abs [of 3] real_sqrt_abs [of 4] by simp_all

lemma np_unique_windows: "np_unique [1, 1, 2, 2, 2 :: real] = [1, 2]"
  by (simp add: np_unique_def)

text \<open>
  The step counts of the windows add up to the number of rows, the window indices are
  repeated into an array of that length, and the loops over them succeed.
\<close>

lemma np_sum_mask_count: "np_sum_mask (eq_mask a v) = length (filter (\<lambda>e. e = v) a)"
  by (induction a) (simp_all add: np_sum_mask_def eq_mask_def)

lemma length_filter_count: "length (filter (\<lambda>e. e = v) a) = count_list a v"
  by (induction a) auto

lemma counts_sum:
  "sum_list (map (\<lambda>value. np_sum_mask (eq_mask a value)) (np_unique a)) = length a"
proof -
  have d: "distinct (np_unique a)" and s: "set (np_unique a) = set a"
    by (simp_all add: np_unique_def)
  have "sum_list (map (count_list a) (np_unique a)) = sum (count_list a) (set (np_unique a))"
    using d by (rule sum_list_distinct_conv_sum_set)
  also have "\<dots> = length a"
    unfolding s by (rule sum_count_set) simp_all
  finally show ?thesis
    by (simp add: np_sum_mask_count length_filter_count)
qed

lemma length_repeat_each:
  "length cs = length xs \<Longrightarrow> length (concat (map2 replicate cs xs)) = sum_list cs"
  by (induction cs xs rule: list_induct2) simp_all

lemma set_repeat_each:
  "length cs = length xs \<Longrightarrow> \<forall>c\<in>set cs. 0 < c \<Longrightarrow> set (concat (map2 replicate cs xs)) = set xs"
  by (induction cs xs rule: list_induct2) auto

lemma np_unique_upt: "set a = {0..<n} \<Longrightarrow> np_unique a = [0..<n]"
  using sorted_list_of_set_sort_remdups [of a] by (simp add: np_unique_def)

lemma sum_squares_nonneg: "0 \<le> sum_list (map2 (*) xs xs) / real k" for xs :: "real list"
proof -
  have "map2 (*) xs xs = map (\<lambda>e. e * e) xs"
    by (induction xs) simp_all
  then have "0 \<le> sum_list (map2 (*) xs xs)"
    by (simp only: ) (rule sum_list_nonneg, auto)
  then show ?thesis by simp
qed

lemma std_dev_loop_ok:
  "length idsDAWS = length post_std_dev \<Longrightarrow>
   \<exists>r. std_dev_loop post_std_dev idsDAWS idx = Inr r \<and> length r = length idx
       \<and> (\<forall>e\<in>set r. 0 \<le> e)"
  by (induction idx) (auto simp: mask_index_def eq_mask_def Let_def sum_squares_nonneg)

lemma daw_loop_normal_length:
  assumes "valid_seed c" and "\<forall>n\<in>set ns. n < length uniq \<and> n < length ppsd"
    and "\<forall>e\<in>set ppsd. 0 \<le> e" and "counts \<noteq> []"
  shows "\<exists>out s'. daw_loop np c k ''normal'' var_tmp (MeanArray uniq) ppsd (CountArray counts)
                     ns acc s = (Inr out, s')
           \<and> length (concat out) = length (concat acc) + length ns * hd counts"
  using assms(2)
proof (induction ns arbitrary: acc s)
  case Nil
  then show ?case by simp
next
  case (Cons n ns)
  then have n: "n < length uniq" "n < length ppsd" and sd: "0 \<le> ppsd ! n"
    using assms(3) by auto
  from assms(4) have c0: "array_item counts 0 = Inr (hd counts)"
    by (cases counts) (simp_all add: array_item_def)
  from Cons.prems have rest: "\<forall>n\<in>set ns. n < length uniq \<and> n < length ppsd"
    by simp
  obtain out s' where
    "daw_loop np c k ''normal'' var_tmp (MeanArray uniq) ppsd (CountArray counts) ns
       (acc @ [replicate (hd counts)
                 (fst (normal_draw np (uniq ! n) (ppsd ! n) (seeded np c s)))])
       (snd (normal_draw np (uniq ! n) (ppsd ! n) (seeded np c s))) = (Inr out, s')"
    and "length (concat out)
         = length (concat (acc @ [replicate (hd counts)
                 (fst (normal_draw np (uniq ! n) (ppsd ! n) (seeded np c s)))]))
           + length ns * hd counts"
    using Cons.IH [OF rest] by blast
  then show ?case
    using n sd c0 assms(1)
    by (simp add: pure_then_def and_then_def mean_vals_item_def counts_item_def array_item_def
        reset_seed_valid draw_noise_normal)
qed

section \<open>Facts about the file names\<close>

lemma py_str_digit: "py_str 3 = ''3''" "py_str 7 = ''7''"
  by (simp_all add: py_str_def str_nat.simps)

lemma filename_demo: "filename cfg_demo 3 7 = ''./DATA/RESULTS/cell_3_7.pkl.blp''"
  by (simp add: filename_def cfg_demo_def py_str_digit os_path_join_def)

text \<open>
  Without the output file, the same configuration and cell reach the observation
  provider: on a masked cell the two calls on it are the whole trace.
\<close>

lemma cell_assimilation_fresh_masked:
  "cell_assimilation collab_masked cfg_demo 3 7 world_fresh
   = (None, \<lparr>files = {}, calls = [Get_dates_obs, Obs_array 3 7]\<rparr>)"
  by (simp add: cell_assimilation_def os_path_exists_def world_fresh_def collab_masked_def
      do_call_def)

section \<open>Claims about create\_noise\<close>

text \<open>
  C5. With a configured seed, \<open>create_noise\<close> is a function of the seed and of its
  arguments only: the sequence it returns (or the exception it raises) does not depend
  on the state in which the call finds the generator, nor on any other attribute of the
  configuration. Two calls with the same arguments under the same seed, and in
  particular two calls made one after the other, give the same output, because the seed
  statement runs before the draw.
\<close>

theorem create_noise_deterministic:
  assumes "seed c \<noteq> None" and "seed c' = seed c"
  shows "fst (create_noise np c' k strategy n_steps mean std_dev var s')
         = fst (create_noise np c k strategy n_steps mean std_dev var s)"
proof -
  from assms obtain m where m: "seed c = Some m" "seed c' = Some m"
    by auto
  show ?thesis
  proof (cases "0 \<le> m \<and> m < 2 ^ 32")
    case True
    with m have "valid_seed c" "valid_seed c'" "seeded np c' s' = seeded np c s"
      by (simp_all add: valid_seed_def seeded_def)
    then show ?thesis
      by (simp add: create_noise_seeded)
  next
    case False
    then have "reset_seed np c s = (Inl (ValueError ''Seed must be between 0 and 2**32 - 1''), s)"
      "reset_seed np c' s' = (Inl (ValueError ''Seed must be between 0 and 2**32 - 1''), s')"
      using m by (auto simp: reset_seed_def np_random_seed_def)
    then show ?thesis
      by (simp add: create_noise_def and_then_def)
  qed
qed

theorem create_noise_deterministic_witness:
  "seed cfg_demo \<noteq> None \<and> seed (cfg_demo\<lparr>restart_run := False\<rparr>) = seed cfg_demo \<and>
   fst (create_noise np_demo (cfg_demo\<lparr>restart_run := False\<rparr>) cnt_demo ''normal'' 5 0 1 ''SWIN'' 7)
   = fst (create_noise np_demo cfg_demo cnt_demo ''normal'' 5 0 1 ''SWIN'' 0)"
  using create_noise_deterministic
    [where c = cfg_demo and c' = "cfg_demo\<lparr>restart_run := False\<rparr>" and np = np_demo
       and k = cnt_demo and strategy = "''normal''" and n_steps = 5 and mean = 0
       and std_dev = 1 and var = "''SWIN''" and s' = 7 and s = 0]
  by (simp add: cfg_demo_def)

text \<open>
  C6. For a step count of at least one (a valid seed or none, a standard deviation that
  is not negative), \<open>create_noise\<close> with the strategy \<open>normal\<close> takes exactly one sample
  from the generator, with the given mean and standard deviation, and returns the array
  of \<open>n_steps\<close> copies of it; the generator is left in the state after that one sample.
\<close>

theorem create_noise_normal_broadcast:
  assumes "1 \<le> n_steps" and "0 \<le> std_dev" and "valid_seed c"
  shows "create_noise np c k ''normal'' n_steps mean std_dev var s
   = (Inr (replicate (nat n_steps) (fst (normal_draw np mean std_dev (seeded np c s)))),
      snd (normal_draw np mean std_dev (seeded np c s)))"
  using assms by (simp add: create_noise_seeded draw_noise_normal)

theorem create_noise_normal_broadcast_witness:
  "(1::int) \<le> 5 \<and> (0::real) \<le> 1 \<and> valid_seed cfg_demo \<and>
   create_noise np_demo cfg_demo cnt_demo ''normal'' 5 0 1 ''SWIN'' 0
   = (Inr [42, 42, 42, 42, 42], 43)"
  using create_noise_normal_broadcast
    [where n_steps = 5 and std_dev = 1 and c = cfg_demo and np = np_demo and k = cnt_demo
       and mean = 0 and var = "''SWIN''" and s = 0]
  by (simp add: valid_seed_def seeded_def cfg_demo_def np_demo_def numeral_eq_Suc)

text \<open>
  C7. A strategy name outside the four supported ones makes \<open>create_noise\<close> raise the
  exception with the message "choose the shape of the perturbation parameters" (the
  configuration error of the specification), so no sequence is returned. With one of
  the four names, a valid seed or none, a step count and a standard deviation that are
  not negative and, for the two bounded strategies, a variable that has both bounds,
  the call raises nothing and returns a sequence of \<open>n_steps\<close> entries.
\<close>

theorem create_noise_strategy_names:
  assumes "valid_seed c"
  shows "(strategy \<notin> set [''normal'', ''lognormal'', ''logitnormal_mult'', ''logitnormal_adi'']
          \<longrightarrow> fst (create_noise np c k strategy n_steps mean std_dev var s)
              = Inl (Exception ''choose the shape of the perturbation parameters''))
       \<and> (strategy \<in> set [''normal'', ''lognormal'', ''logitnormal_mult'', ''logitnormal_adi'']
          \<and> 0 \<le> n_steps \<and> 0 \<le> std_dev
          \<and> (strategy \<in> set [''logitnormal_mult'', ''logitnormal_adi'']
               \<longrightarrow> var \<in> dom (upper_bounds k) \<and> var \<in> dom (lower_bounds k))
          \<longrightarrow> (\<exists>noise. fst (create_noise np c k strategy n_steps mean std_dev var s) = Inr noise
                \<and> length noise = nat n_steps))"
proof (intro conjI impI)
  assume "strategy \<notin> set [''normal'', ''lognormal'', ''logitnormal_mult'', ''logitnormal_adi'']"
  then show "fst (create_noise np c k strategy n_steps mean std_dev var s)
             = Inl (Exception ''choose the shape of the perturbation parameters'')"
    using assms draw_noise_unknown [of strategy np k n_steps mean std_dev var "seeded np c s"]
    by (simp add: create_noise_seeded)
next
  assume a: "strategy \<in> set [''normal'', ''lognormal'', ''logitnormal_mult'', ''logitnormal_adi'']
          \<and> 0 \<le> n_steps \<and> 0 \<le> std_dev
          \<and> (strategy \<in> set [''logitnormal_mult'', ''logitnormal_adi'']
               \<longrightarrow> var \<in> dom (upper_bounds k) \<and> var \<in> dom (lower_bounds k))"
  then consider (n) "strategy = ''normal''" | (l) "strategy = ''lognormal''"
    | (b) "strategy \<in> set [''logitnormal_mult'', ''logitnormal_adi'']"
    by auto
  then show "\<exists>noise. fst (create_noise np c k strategy n_steps mean std_dev var s) = Inr noise
                \<and> length noise = nat n_steps"
  proof cases
    case n
    with a assms show ?thesis
      by (simp add: create_noise_seeded draw_noise_normal)
  next
    case l
    with a assms show ?thesis
      by (simp add: create_noise_seeded draw_noise_lognormal)
  next
    case b
    with a obtain bPmax bPmin
      where "upper_bounds k var = Some bPmax" "lower_bounds k var = Some bPmin"
      by blast
    with a b assms show ?thesis
      by (simp add: create_noise_seeded draw_noise_logitnormal length_fst_gexpit)
  qed
qed

theorem create_noise_strategy_names_witness:
  "valid_seed cfg_demo \<and>
   ''uniform'' \<notin> set [''normal'', ''lognormal'', ''logitnormal_mult'', ''logitnormal_adi''] \<and>
   fst (create_noise np_demo cfg_demo cnt_demo ''uniform'' 5 0 1 ''SWIN'' 0)
     = Inl (Exception ''choose the shape of the perturbation parameters'') \<and>
   ''logitnormal_adi'' \<in> set [''normal'', ''lognormal'', ''logitnormal_mult'', ''logitnormal_adi''] \<and>
   ''SWIN'' \<in> dom (upper_bounds cnt_demo) \<and> ''SWIN'' \<in> dom (lower_bounds cnt_demo) \<and>
   (\<exists>noise. fst (create_noise np_demo cfg_demo cnt_demo ''logitnormal_adi'' 5 0 1 ''SWIN'' 0)
              = Inr noise \<and> length noise = nat 5)"
proof -
  have v: "valid_seed cfg_demo"
    by (simp add: valid_seed_def cfg_demo_def)
  have d: "''SWIN'' \<in> dom (upper_bounds cnt_demo)" "''SWIN'' \<in> dom (lower_bounds cnt_demo)"
    by (simp_all add: cnt_demo_def)
  from create_noise_strategy_names
    [OF v, where strategy = "''uniform''" and np = np_demo and k = cnt_demo and n_steps = 5
       and mean = 0 and std_dev = 1 and var = "''SWIN''" and s = 0]
  have 1: "fst (create_noise np_demo cfg_demo cnt_demo ''uniform'' 5 0 1 ''SWIN'' 0)
     = Inl (Exception ''choose the shape of the perturbation parameters'')"
    by simp
  from create_noise_strategy_names
    [OF v, where strategy = "''logitnormal_adi''" and np = np_demo and k = cnt_demo
       and n_steps = 5 and mean = 0 and std_dev = 1 and var = "''SWIN''" and s = 0] d
  have 2: "\<exists>noise. fst (create_noise np_demo cfg_demo cnt_demo ''logitnormal_adi'' 5 0 1 ''SWIN'' 0)
              = Inr noise \<and> length noise = nat 5"
    by simp
  from v d 1 2 show ?thesis by simp
qed

section \<open>Claims about the transform pair\<close>

text \<open>
  C2 asks that \<open>glogit\<close> returns a finite result, without infinities and without NaNs,
  for every pair of bounds and every array with entries on a bound, the entries on a
  bound being nudged inward before the logit is taken. The two guards move an entry by
  100 spacings whatever the distance between the bounds. With the bounds 1 and
  1 + 100 * 2^-52 and the array [1], the entry is moved up onto the upper bound and back
  down onto the lower bound, and the logit is taken at 0, where scipy returns minus
  infinity. With the bounds 1 and 1 + 50 * 2^-52 the entry is moved past the upper bound,
  and the logit is taken at 2, where scipy returns NaN. All the float64 operations
  involved are exact on these values.
\<close>

theorem glogit_close_bounds:
  "glogit np_demo [1] 1 (1 + 100 / 2 ^ 52) = ([logit np_demo 0], [1]) \<and>
   glogit np_demo [1] 1 (1 + 50 / 2 ^ 52) = ([logit np_demo 2], [1 + 100 / 2 ^ 52])"
  by (simp add: glogit_nudged nudged_def nudge_up_def nudge_down_def np_demo_def)

text \<open>
  C10, as stated, fails when the bounds are one nudge apart: the entry on the lower
  bound is moved up onto the upper bound by the first guard, and the second guard, which
  tests the array it has just changed, moves it back down. With the spacing of float64
  between 1 and 2, the bounds 1 and 1 + 100 * 2^-52 and the array [1], the caller's array
  holds the original bound value 1 after the call.
\<close>

theorem glogit_in_place_counterexample:
  "snd (glogit np_demo [1] 1 (1 + 100 / 2 ^ 52)) = [1] \<and>
   snd (gexpit np_demo [1] 1 (1 + 100 / 2 ^ 52)) = [1]"
  by (simp add: glogit_nudged gexpit_nudged nudged_def nudge_up_def nudge_down_def
      np_demo_def)

text \<open>
  C10, amended. Let the two nudged values, the lower bound moved up and the upper bound
  moved down by 100 spacings as float64 computes them, be different from both bounds.
  Then \<open>glogit\<close>, and likewise \<open>gexpit\<close>, leaves in the caller's array: the nudged lower
  bound in every entry that was on the lower bound, the nudged upper bound in every other
  entry that was on the upper bound, and the old value everywhere else. After the call
  no entry of the caller's array is on a bound, and an array with no entry on a bound is
  left as it was.
\<close>

theorem transform_in_place:
  assumes "nudge_up np bPmin \<noteq> bPmin" and "nudge_up np bPmin \<noteq> bPmax"
    and "nudge_down np bPmax \<noteq> bPmin" and "nudge_down np bPmax \<noteq> bPmax"
  shows "snd (glogit np x bPmin bPmax)
         = map (\<lambda>e. if e = bPmin then nudge_up np bPmin
                    else if e = bPmax then nudge_down np bPmax else e) x
       \<and> snd (gexpit np x bPmin bPmax)
         = map (\<lambda>e. if e = bPmin then nudge_up np bPmin
                    else if e = bPmax then nudge_down np bPmax else e) x
       \<and> bPmin \<notin> set (snd (glogit np x bPmin bPmax))
       \<and> bPmax \<notin> set (snd (glogit np x bPmin bPmax))
       \<and> bPmin \<notin> set (snd (gexpit np x bPmin bPmax))
       \<and> bPmax \<notin> set (snd (gexpit np x bPmin bPmax))
       \<and> (bPmin \<notin> set x \<and> bPmax \<notin> set x
            \<longrightarrow> snd (glogit np x bPmin bPmax) = x \<and> snd (gexpit np x bPmin bPmax) = x)"
proof -
  let ?f = "\<lambda>e. if e = bPmin then nudge_up np bPmin
                 else if e = bPmax then nudge_down np bPmax else e"
  have n: "nudged np bPmin bPmax = ?f"
    using assms(2) by (auto simp: nudged_def Let_def fun_eq_iff)
  have g: "snd (glogit np x bPmin bPmax) = map ?f x"
    by (simp add: glogit_nudged n)
  have e: "snd (gexpit np x bPmin bPmax) = map ?f x"
    by (simp add: gexpit_nudged n)
  have off: "bPmin \<notin> set (map ?f x)" "bPmax \<notin> set (map ?f x)"
    using assms by auto
  have free: "map ?f x = x" if "bPmin \<notin> set x \<and> bPmax \<notin> set x"
  proof -
    from that have "\<forall>e\<in>set x. ?f e = e"
      by auto
    then show ?thesis
      by (simp add: map_idI)
  qed
  then have free': "bPmin \<notin> set x \<and> bPmax \<notin> set x \<longrightarrow> map ?f x = x \<and> map ?f x = x"
    by blast
  show ?thesis
    unfolding g e using off free' by blast
qed

theorem transform_in_place_witness:
  "nudge_up np_demo 1 \<noteq> 1 \<and> nudge_up np_demo 1 \<noteq> 3 / 2 \<and>
   nudge_down np_demo (3 / 2) \<noteq> 1 \<and> nudge_down np_demo (3 / 2) \<noteq> 3 / 2 \<and>
   snd (glogit np_demo [1, 5 / 4, 3 / 2] 1 (3 / 2))
     = [1 + 100 / 2 ^ 52, 5 / 4, 3 / 2 - 100 / 2 ^ 52] \<and>
   snd (gexpit np_demo [1, 5 / 4, 3 / 2] 1 (3 / 2))
     = [1 + 100 / 2 ^ 52, 5 / 4, 3 / 2 - 100 / 2 ^ 52] \<and>
   1 \<notin> set (snd (glogit np_demo [1, 5 / 4, 3 / 2] 1 (3 / 2))) \<and>
   3 / 2 \<notin> set (snd (glogit np_demo [1, 5 / 4, 3 / 2] 1 (3 / 2))) \<and>
   1 \<notin> set [5 / 4, 11 / 8 :: real] \<and> 3 / 2 \<notin> set [5 / 4, 11 / 8 :: real] \<and>
   snd (glogit np_demo [5 / 4, 11 / 8] 1 (3 / 2)) = [5 / 4, 11 / 8] \<and>
   snd (gexpit np_demo [5 / 4, 11 / 8] 1 (3 / 2)) = [5 / 4, 11 / 8]"
proof -
  have u: "nudge_up np_demo 1 = 1 + 100 / 2 ^ 52"
    and d: "nudge_down np_demo (3 / 2) = 3 / 2 - 100 / 2 ^ 52"
    by (simp_all add: nudge_up_def nudge_down_def np_demo_def)
  have h: "nudge_up np_demo 1 \<noteq> 1" "nudge_up np_demo 1 \<noteq> 3 / 2"
    "nudge_down np_demo (3 / 2) \<noteq> 1" "nudge_down np_demo (3 / 2) \<noteq> 3 / 2"
    unfolding u d by simp_all
  from transform_in_place [OF h, of "[1, 5 / 4, 3 / 2]"]
  have a: "snd (glogit np_demo [1, 5 / 4, 3 / 2] 1 (3 / 2))
           = [1 + 100 / 2 ^ 52, 5 / 4, 3 / 2 - 100 / 2 ^ 52]"
    "snd (gexpit np_demo [1, 5 / 4, 3 / 2] 1 (3 / 2))
           = [1 + 100 / 2 ^ 52, 5 / 4, 3 / 2 - 100 / 2 ^ 52]"
    "1 \<notin> set (snd (glogit np_demo [1, 5 / 4, 3 / 2] 1 (3 / 2)))"
    "3 / 2 \<notin> set (snd (glogit np_demo [1, 5 / 4, 3 / 2] 1 (3 / 2)))"
    by (simp_all add: u d)
  from transform_in_place [OF h, of "[5 / 4, 11 / 8]"]
  have b: "snd (glogit np_demo [5 / 4, 11 / 8] 1 (3 / 2)) = [5 / 4, 11 / 8]"
    "snd (gexpit np_demo [5 / 4, 11 / 8] 1 (3 / 2)) = [5 / 4, 11 / 8]"
    by simp_all
  from h a b show ?thesis by simp
qed

section \<open>Claims about create\_noise\_from\_posterior\<close>

text \<open>
  C3 asks that the reconstructed series has the length of the stored one and that every
  reconstructed window has the step count of the matching stored window. The loop over
  the windows takes \<^verbatim>\<open>n_steps = counts[0]\<close> in every iteration, so every window gets the
  step count of the first one, the window of the smallest mean: for every stored series
  with a repeated mean, the strategy \<open>normal\<close> returns as many entries as there are
  distinct means times the number of steps that carry the smallest mean. That is the
  number of rows only when the step counts of the windows average to the first one.
\<close>

theorem create_noise_from_posterior_window_lengths:
  assumes "valid_seed c"
    and "columns posteriors (var_tmp @ ''_noise_mean'') = Some post_mean"
    and "columns posteriors (var_tmp @ ''_noise_sd'') = Some post_std_dev"
    and "nrows posteriors = length post_mean" and "length post_std_dev = length post_mean"
    and "\<not> distinct post_mean"
  shows "\<exists>noise s'. create_noise_from_posterior np c k posteriors ''normal'' var_tmp s
                      = (Inr noise, s')
           \<and> length noise = length (np_unique post_mean)
                              * np_sum_mask (eq_mask post_mean (hd (np_unique post_mean)))"
proof -
  let ?uniq = "np_unique post_mean"
  let ?counts = "map (\<lambda>value. np_sum_mask (eq_mask post_mean value)) ?uniq"
  let ?ids = "concat (map2 replicate ?counts [0..<length ?uniq])"
  from assms(6) have ne: "length post_mean \<noteq> length ?uniq"
    by (metis np_unique_def length_sort length_remdups_eq remdups_id_iff_distinct)
  have "post_mean \<noteq> []"
    using assms(6) by auto
  then have "set ?uniq \<noteq> {}"
    by (simp add: np_unique_def)
  then have nonempty: "?uniq \<noteq> []"
    by auto
  have pos: "\<forall>c\<in>set ?counts. 0 < c"
    by (auto simp: np_sum_mask_count np_unique_def filter_empty_conv)
  have len_ids: "length ?ids = length post_std_dev"
    using length_repeat_each [of ?counts "[0..<length ?uniq]"] counts_sum [of post_mean] assms(5)
    by simp
  have "set ?ids = {0..<length ?uniq}"
    using set_repeat_each [of ?counts "[0..<length ?uniq]"] pos by simp
  then have uid: "np_unique ?ids = [0..<length ?uniq]"
    by (rule np_unique_upt)
  obtain ppsd where ppsd: "std_dev_loop post_std_dev ?ids [0..<length ?uniq] = Inr ppsd"
    "length ppsd = length ?uniq" "\<forall>e\<in>set ppsd. 0 \<le> e"
    using std_dev_loop_ok [OF len_ids, of "[0..<length ?uniq]"] by auto
  have cne: "?counts \<noteq> []"
    using nonempty by simp
  obtain out s' where out:
    "daw_loop np c k ''normal'' var_tmp (MeanArray ?uniq) ppsd (CountArray ?counts)
       [0..<length ?uniq] [] (seeded np c s) = (Inr out, s')"
    "length (concat out) = length (concat ([] :: real list list)) + length [0..<length ?uniq] * hd ?counts"
    using daw_loop_normal_length [OF assms(1) _ ppsd(3) cne, of "[0..<length ?uniq]" ?uniq np k var_tmp "[]" "seeded np c s"]
      ppsd(2) by auto
  have one: "out \<noteq> []"
    using out(2) nonempty pos cne by (cases "?counts") auto
  have hdc: "hd ?counts = np_sum_mask (eq_mask post_mean (hd ?uniq))"
    using nonempty by (simp add: hd_map)
  show ?thesis
    using assms(1-4) ne ppsd(1) out one hdc
    by (simp add: create_noise_from_posterior_def reset_seed_valid and_then_def pure_then_def
        df_getitem_def getitem_def len_counts_def repeat_ids_def np_repeat_each_def uid
        mean_vals_size_def np_concatenate_def Let_def)
qed


text \<open>
  On the stored series with the means 1, 1, 2, 2, 2 (a window of two steps, then a window
  of three) the function returns four entries for five rows: two steps for the first
  window and two, not three, for the second.
\<close>

theorem create_noise_from_posterior_window_lengths_witness:
  "valid_seed cfg_demo \<and>
   columns post_windows (''SWIN'' @ ''_noise_mean'') = Some [1, 1, 2, 2, 2] \<and>
   columns post_windows (''SWIN'' @ ''_noise_sd'') = Some [3, 3, 4, 4, 4] \<and>
   nrows post_windows = 5 \<and>
   \<not> distinct [1, 1, 2, 2, 2 :: real] \<and>
   (\<exists>noise s'. create_noise_from_posterior np_demo cfg_demo cnt_demo post_windows ''normal''
                  ''SWIN'' 0 = (Inr noise, s')
        \<and> length noise = 4)"
proof -
  have h: "valid_seed cfg_demo"
    "columns post_windows (''SWIN'' @ ''_noise_mean'') = Some [1, 1, 2, 2, 2]"
    "columns post_windows (''SWIN'' @ ''_noise_sd'') = Some [3, 3, 4, 4, 4]"
    "nrows post_windows = length [1, 1, 2, 2, 2 :: real]"
    "length [3, 3, 4, 4, 4 :: real] = length [1, 1, 2, 2, 2 :: real]"
    "\<not> distinct [1, 1, 2, 2, 2 :: real]"
    by (simp_all add: valid_seed_def cfg_demo_def post_windows_def)
  have n: "length (np_unique [1, 1, 2, 2, 2 :: real])
           * np_sum_mask (eq_mask [1, 1, 2, 2, 2 :: real] (hd (np_unique [1, 1, 2, 2, 2]))) = 4"
    by (simp add: np_unique_windows np_sum_mask_def eq_mask_def)
  from create_noise_from_posterior_window_lengths
    [OF h, where np = np_demo and k = cnt_demo and s = 0]
  have "\<exists>noise s'. create_noise_from_posterior np_demo cfg_demo cnt_demo post_windows ''normal''
                  ''SWIN'' 0 = (Inr noise, s')
        \<and> length noise = 4"
    by (simp only: n)
  with h show ?thesis by simp
qed

text \<open>The value returned on that series, with the concrete library.\<close>

lemma create_noise_from_posterior_windows_value:
  "create_noise_from_posterior np_demo cfg_demo cnt_demo post_windows ''normal'' ''SWIN'' 0
   = (Inr [127, 127, 170, 170], 43)"
  apply (simp add: create_noise_from_posterior_def reset_seed_def cfg_demo_def
      np_random_seed_def and_then_def pure_then_def df_getitem_def getitem_def
      post_windows_def np_unique_windows len_counts_def repeat_ids_def np_repeat_each_def
      np_sum_mask_def eq_mask_def mask_index_def mean_vals_size_def upt_rec
      eval_nat_numeral)
  apply (simp add: np_unique_def mask_index_def eq_mask_def np_sum_mask_def sqrt_squares
      mean_vals_item_def array_item_def counts_item_def reset_seed_def np_random_seed_def
      and_then_def pure_then_def draw_noise_def np_random_normal_def np_demo_def
      np_repeat_def np_concatenate_def)
  done

text \<open>
  C4 asks that a stored series whose means are all different is regenerated as a single
  window. In that branch \<^verbatim>\<open>counts\<close> is the integer \<^verbatim>\<open>len(posteriors)\<close>, and the next
  statement takes \<^verbatim>\<open>len(counts)\<close>: whenever both columns are present, the column of means
  has one entry per row and the entries are all different, the call raises TypeError and
  returns nothing, whatever the strategy.
\<close>

theorem create_noise_from_posterior_dynamic_raises:
  assumes "valid_seed c"
    and "columns posteriors (var_tmp @ ''_noise_mean'') = Some post_mean"
    and "columns posteriors (var_tmp @ ''_noise_sd'') = Some post_std_dev"
    and "nrows posteriors = length post_mean"
    and "distinct post_mean"
  shows "create_noise_from_posterior np c k posteriors strategy var_tmp s
         = (Inl (TypeError ''object of type int has no len()''), seeded np c s)"
  using assms
  by (simp add: create_noise_from_posterior_def reset_seed_valid and_then_def pure_then_def
      df_getitem_def getitem_def np_unique_distinct_length len_counts_def)

theorem create_noise_from_posterior_dynamic_raises_witness:
  "valid_seed cfg_demo \<and>
   columns post_dynamic (''SWIN'' @ ''_noise_mean'') = Some [1 / 10, 3 / 10, 2 / 10] \<and>
   columns post_dynamic (''SWIN'' @ ''_noise_sd'') = Some [1, 1, 1] \<and>
   nrows post_dynamic = length [1 / 10, 3 / 10, 2 / 10 :: real] \<and>
   distinct [1 / 10, 3 / 10, 2 / 10 :: real] \<and>
   create_noise_from_posterior np_demo cfg_demo cnt_demo post_dynamic ''normal'' ''SWIN'' 0
   = (Inl (TypeError ''object of type int has no len()''), 42)"
proof -
  have h: "valid_seed cfg_demo"
    "columns post_dynamic (''SWIN'' @ ''_noise_mean'') = Some [1 / 10, 3 / 10, 2 / 10]"
    "columns post_dynamic (''SWIN'' @ ''_noise_sd'') = Some [1, 1, 1]"
    "nrows post_dynamic = length [1 / 10, 3 / 10, 2 / 10 :: real]"
    "distinct [1 / 10, 3 / 10, 2 / 10 :: real]"
    by (simp_all add: valid_seed_def cfg_demo_def post_dynamic_def)
  have s: "seeded np_demo cfg_demo 0 = 42"
    by (simp add: seeded_def cfg_demo_def np_demo_def)
  from create_noise_from_posterior_dynamic_raises
    [OF h, where np = np_demo and k = cnt_demo and strategy = "''normal''" and s = 0]
  have "create_noise_from_posterior np_demo cfg_demo cnt_demo post_dynamic ''normal'' ''SWIN'' 0
        = (Inl (TypeError ''object of type int has no len()''), 42)"
    by (simp only: s)
  with h show ?thesis by simp
qed

section \<open>Claims about perturb\_parameters\<close>

text \<open>
  C9, as stated, is about the engine: every configuration whose two lists differ in
  length makes it raise before any simulation step. The check is not made when the run
  starts but inside \<open>perturb_parameters\<close>, and \<open>cell_assimilation\<close> itself never compares
  the lists. With three variables and two strategies, the restart run of a cell whose
  output exists returns without raising, and the run of a cell without observations
  hands the forcing to the open-loop model run and returns without raising.
\<close>

theorem cell_assimilation_length_check_counterexample:
  "length (vars_to_perturbate cfg_demo) = 3 \<and> length (perturbation_strategy cfg_demo) = 2 \<and>
   cell_assimilation collab_masked cfg_demo 3 7 world_done = (None, world_done) \<and>
   cell_assimilation collab_all_nan cfg_demo 3 7 world_fresh
   = (None,
      \<lparr>files = {},
         calls = [Get_dates_obs, Obs_array 3 7, Forcing_table 3 7, Forcing_check,
                  Simulation_steps,
                  Run_model_openloop 3 7 ''./DATA/RESULTS/cell_3_7.pkl.blp'']\<rparr>)"
proof -
  have "vars_to_perturbate cfg_demo = [''SWIN'', ''LWIN'', ''Prec'']"
    "perturbation_strategy cfg_demo = [''normal'', ''lognormal'']"
    "restart_run cfg_demo" "\<not> load_prev_run cfg_demo"
    by (simp_all add: cfg_demo_def)
  then show ?thesis
    by (simp add: cell_assimilation_def filename_demo os_path_exists_def world_done_def
        world_fresh_def collab_masked_def collab_all_nan_def do_call_def)
qed

text \<open>
  C9, amended. Whenever \<open>perturb_parameters\<close> is called while the list of perturbed
  variables and the list of strategies have different lengths, it raises the exception
  of the length check (the configuration error of the specification) whatever its other
  arguments are. The check comes before the loop over the variables: no coefficient is
  drawn, the generator is left in the state it was in, and no forcing table is returned.
\<close>

theorem perturb_parameters_length_check:
  assumes "length (vars_to_perturbate c) \<noteq> length (perturbation_strategy c)"
  shows "perturb_parameters np c k read_parameter main_forcing posteriors noise update readGSC s
         = (Inl (Exception ''Length of vars_to_perturbate different to perturbation_strategy''),
            s)"
  using assms by (simp add: perturb_parameters_def)

theorem perturb_parameters_length_check_witness:
  "length (vars_to_perturbate cfg_demo) = 3 \<and> length (perturbation_strategy cfg_demo) = 2 \<and>
   length (vars_to_perturbate cfg_demo) \<noteq> length (perturbation_strategy cfg_demo) \<and>
   perturb_parameters np_demo cfg_demo cnt_demo (\<lambda>var. Inr [1]) forcing_demo None None
     False False 0
   = (Inl (Exception ''Length of vars_to_perturbate different to perturbation_strategy''), 0)"
proof -
  have h: "length (vars_to_perturbate cfg_demo) \<noteq> length (perturbation_strategy cfg_demo)"
    by (simp add: cfg_demo_def)
  from perturb_parameters_length_check
    [OF h, where np = np_demo and k = cnt_demo and read_parameter = "\<lambda>var. Inr [1]"
       and main_forcing = forcing_demo and posteriors = None and noise = None
       and update = False and readGSC = False and s = 0]
  show ?thesis
    by (simp add: cfg_demo_def)
qed

section \<open>Claims about cell\_assimilation\<close>

text \<open>
  C8. In a restart run, when the output file of the cell exists, \<open>cell_assimilation\<close>
  returns at once: the world after the call is the world before it, so no call has been
  made on the observation provider, on the model adapter or on any other collaborator,
  and no file has been written.
\<close>

theorem cell_assimilation_restart_skip:
  assumes "restart_run c" and "os_path_exists w (filename c lat_idx lon_idx)"
  shows "cell_assimilation env c lat_idx lon_idx w = (None, w)"
  using assms by (simp add: cell_assimilation_def)

theorem cell_assimilation_restart_skip_witness:
  "restart_run cfg_demo \<and> os_path_exists world_done (filename cfg_demo 3 7) \<and>
   cell_assimilation collab_masked cfg_demo 3 7 world_done = (None, world_done)"
proof -
  have h: "restart_run cfg_demo" "os_path_exists world_done (filename cfg_demo 3 7)"
    by (simp_all add: filename_demo os_path_exists_def world_done_def) (simp add: cfg_demo_def)
  from cell_assimilation_restart_skip [OF h, of collab_masked] h
  show ?thesis by simp
qed

end
